theory Spec2Isabelle
  imports Complex_Main
begin

section \<open>Python values used by the Grocy client\<close>

text \<open>
  The client (\<^verbatim>\<open>src/app/grocy/client.py\<close>) is Python. A Python \<^verbatim>\<open>str\<close> is a sequence of
  Unicode code points: a list of natural numbers (below 0x110000). \<open>py\<close> turns a literal
  into that list.
\<close>

type_synonym pystr = "nat list"

definition py :: "string \<Rightarrow> pystr" where
  "py s = map of_char s"

text \<open>
  A raised exception is a value: every function that can raise returns \<open>error + 'a\<close>, with
  \<open>Inl\<close> for the exception. The constructor is the exception class; its argument is the
  message of the exception (the missing key of a \<^verbatim>\<open>KeyError\<close>, the status code of an
  \<^verbatim>\<open>HTTPError\<close>).
\<close>

datatype error =
    ValueError pystr
  | TypeError pystr
  | KeyError pystr
  | AttributeError pystr
  | ZeroDivisionError pystr
  | OverflowError pystr
  | ConnectionError pystr
  | HTTPError int
  | JSONDecodeError pystr

text \<open>
  The character tables are those of the Unicode database 14.0.0, which CPython 3.11 carries.

  \<^verbatim>\<open>int(c)\<close> of a one-character string accepts the characters with Numeric_Type=Decimal
  (the category Nd) and raises \<^verbatim>\<open>ValueError\<close> on every other character. These characters
  come in 66 runs of ten, the digits 0 to 9 of a script in order; \<open>decimal_zeros\<close> lists the
  zero of each run, U+0030 first.
\<close>

definition decimal_zeros :: "nat list" where
  "decimal_zeros =
     [0x30, 0x660, 0x6F0, 0x7C0, 0x966, 0x9E6, 0xA66, 0xAE6, 0xB66, 0xBE6, 0xC66,
      0xCE6, 0xD66, 0xDE6, 0xE50, 0xED0, 0xF20, 0x1040, 0x1090, 0x17E0, 0x1810, 0x1946,
      0x19D0, 0x1A80, 0x1A90, 0x1B50, 0x1BB0, 0x1C40, 0x1C50, 0xA620, 0xA8D0, 0xA900,
      0xA9D0, 0xA9F0, 0xAA50, 0xABF0, 0xFF10, 0x104A0, 0x10D30, 0x11066, 0x110F0,
      0x11136, 0x111D0, 0x112F0, 0x11450, 0x114D0, 0x11650, 0x116C0, 0x11730, 0x118E0,
      0x11950, 0x11C50, 0x11D50, 0x11DA0, 0x16A60, 0x16AC0, 0x16B50, 0x1D7CE, 0x1D7D8,
      0x1D7E2, 0x1D7EC, 0x1D7F6, 0x1E140, 0x1E2F0, 0x1E950, 0x1FBF0]"

definition decimal_value :: "nat \<Rightarrow> nat option" where
  "decimal_value c =
     (case find (\<lambda>z. z \<le> c \<and> c < z + 10) decimal_zeros of
        None \<Rightarrow> None
      | Some z \<Rightarrow> Some (c - z))"

text \<open>
  \<^verbatim>\<open>str.isdigit()\<close> is true when the string is not empty and every character has
  Numeric_Type=Decimal or Numeric_Type=Digit. \<open>other_digits\<close> lists the ranges of the 128
  characters with Numeric_Type=Digit: superscripts, subscripts, circled digits and the like.
\<close>

definition other_digits :: "(nat \<times> nat) list" where
  "other_digits =
     [(0xB2, 0xB3), (0xB9, 0xB9), (0x1369, 0x1371), (0x19DA, 0x19DA), (0x2070, 0x2070),
      (0x2074, 0x2079), (0x2080, 0x2089), (0x2460, 0x2468), (0x2474, 0x247C),
      (0x2488, 0x2490), (0x24EA, 0x24EA), (0x24F5, 0x24FD), (0x24FF, 0x24FF),
      (0x2776, 0x277E), (0x2780, 0x2788), (0x278A, 0x2792), (0x10A40, 0x10A43),
      (0x10E60, 0x10E68), (0x11052, 0x1105A), (0x1F100, 0x1F10A)]"

definition isdigit_char :: "nat \<Rightarrow> bool" where
  "isdigit_char c \<longleftrightarrow>
     decimal_value c \<noteq> None \<or> list_ex (\<lambda>r. fst r \<le> c \<and> c \<le> snd r) other_digits"

definition isdigit :: "pystr \<Rightarrow> bool" where
  "isdigit s \<longleftrightarrow> s \<noteq> [] \<and> list_all isdigit_char s"

definition py_int :: "nat \<Rightarrow> error + int" where
  "py_int c =
     (case decimal_value c of
        Some v \<Rightarrow> Inr (int v)
      | None \<Rightarrow>
          Inl (ValueError (py ''invalid literal for int() with base 10: '' @ [0x27, c, 0x27])))"

text \<open>\<^verbatim>\<open>str(n)\<close> of an integer: its decimal digits, with a minus sign when negative.\<close>

fun digits_of :: "nat \<Rightarrow> pystr" where
  "digits_of n =
     (if n < 10 then [0x30 + n]
      else digits_of (n div 10) @ [0x30 + n mod 10])"

declare digits_of.simps [simp del]

definition py_str :: "int \<Rightarrow> pystr" where
  "py_str n = (if n < 0 then 0x2D # digits_of (nat (- n)) else digits_of (nat n))"

section \<open>Barcode normalisation\<close>

text \<open>
  \<^verbatim>\<open>sum(int(digit) * (3 if i % 2 == 0 else 1) for i, digit in enumerate(code11))\<close>:
  the generator is consumed from the left, \<open>i\<close> is the index, \<open>acc\<close> the running sum; the
  first \<^verbatim>\<open>int(digit)\<close> that raises ends the sum with its exception.
\<close>

fun weighted_total :: "nat \<Rightarrow> int \<Rightarrow> pystr \<Rightarrow> error + int" where
  "weighted_total i acc [] = Inr acc"
| "weighted_total i acc (digit # rest) =
     (case py_int digit of
        Inl e \<Rightarrow> Inl e
      | Inr d \<Rightarrow> weighted_total (Suc i) (acc + d * (if i mod 2 = 0 then 3 else 1)) rest)"

definition calculate_upc_check_digit :: "pystr \<Rightarrow> error + pystr" where
  "calculate_upc_check_digit code11 =
     (if length code11 \<noteq> 11 \<or> \<not> isdigit code11
      then Inl (ValueError (py ''Input must be an 11-digit string''))
      else (case weighted_total 0 0 code11 of
              Inl e \<Rightarrow> Inl e
            | Inr tot \<Rightarrow> Inr (py_str ((10 - (tot mod 10)) mod 10))))"

definition build_upc_from_receipt :: "pystr \<Rightarrow> error + pystr" where
  "build_upc_from_receipt receipt_code =
     (if length receipt_code \<noteq> 10 \<or> \<not> isdigit receipt_code
      then Inl (ValueError (py ''Expected a 10-digit numeric receipt code''))
      else (let base_code = py ''0'' @ receipt_code in
            case calculate_upc_check_digit base_code of
              Inl e \<Rightarrow> Inl e
            | Inr check \<Rightarrow> Inr (base_code @ check)))"

definition normalize_receipt_barcode :: "pystr \<Rightarrow> error + pystr" where
  "normalize_receipt_barcode receipt_code =
     (if length receipt_code = 10 \<and> isdigit receipt_code
      then build_upc_from_receipt receipt_code
      else Inr receipt_code)"

subsection \<open>The words of the specification\<close>

text \<open>
  A string of numeric digits, in the specification's sense, has only the characters
  \<^verbatim>\<open>0\<close> to \<^verbatim>\<open>9\<close>; the value of such a character is its distance from \<^verbatim>\<open>0\<close>.
  The weighted sum of the specification gives weight 3 to the even 0-based positions and
  weight 1 to the odd ones. A string of decimal digits, in Python's sense, has only
  characters that \<^verbatim>\<open>int\<close> accepts.
\<close>

definition is_decimal_char :: "nat \<Rightarrow> bool" where
  "is_decimal_char c \<longleftrightarrow> 0x30 \<le> c \<and> c \<le> 0x39"

definition numeric_digits :: "pystr \<Rightarrow> bool" where
  "numeric_digits s \<longleftrightarrow> list_all is_decimal_char s"

definition digit_value :: "nat \<Rightarrow> int" where
  "digit_value c = int c - 0x30"

definition digit_char :: "int \<Rightarrow> nat" where
  "digit_char d = 0x30 + nat d"

definition raises_ValueError :: "error + 'a \<Rightarrow> bool" where
  "raises_ValueError r = (case r of Inl (ValueError msg) \<Rightarrow> True | _ \<Rightarrow> False)"

definition spec_weighted_sum :: "pystr \<Rightarrow> int" where
  "spec_weighted_sum s =
     (\<Sum>i < length s. digit_value (s ! i) * (if even i then 3 else 1))"

definition decimal_digits :: "pystr \<Rightarrow> bool" where
  "decimal_digits s \<longleftrightarrow> list_all (\<lambda>c. decimal_value c \<noteq> None) s"

section \<open>Decoded JSON and the Python operations on it\<close>

text \<open>
  What \<^verbatim>\<open>response.json()\<close> returns, and what the operations of the client return, is a
  Python value built from \<^verbatim>\<open>None\<close>, booleans, numbers, strings, lists and dicts. The number
  type \<open>'n\<close> is left open: the client only multiplies and divides numbers and compares them
  with zero, so every statement below holds for whatever arithmetic \<open>'n\<close> carries. A dict
  is the list of its items, in order, with distinct keys.
\<close>

datatype 'n json =
    JNull
  | JBool bool
  | JNum 'n
  | JStr pystr
  | JArr "'n json list"
  | JObj "(pystr \<times> 'n json) list"

text \<open>
  \<open>error_text\<close> is \<^verbatim>\<open>str(e)\<close>. The wording that the interpreter and the \<^verbatim>\<open>requests\<close>
  library choose for their own exceptions is abbreviated, and no statement depends on it.
\<close>

fun error_text :: "error \<Rightarrow> pystr" where
  "error_text (ValueError msg) = msg"
| "error_text (TypeError msg) = msg"
| "error_text (KeyError k) = [0x27] @ k @ [0x27]"
| "error_text (ZeroDivisionError msg) = msg"
| "error_text (OverflowError msg) = msg"
| "error_text (AttributeError msg) = msg"
| "error_text (ConnectionError msg) = msg"
| "error_text (HTTPError status) =
     py_str status @ (if status < 500 then (py '' Client Error'') else (py '' Server Error''))"
| "error_text (JSONDecodeError msg) = msg"

text \<open>Truth value of a Python value, and \<^verbatim>\<open>a or b\<close>.\<close>

fun truthy :: "('n::zero) json \<Rightarrow> bool" where
  "truthy JNull = False"
| "truthy (JBool b) = b"
| "truthy (JNum x) = (x \<noteq> 0)"
| "truthy (JStr s) = (s \<noteq> [])"
| "truthy (JArr xs) = (xs \<noteq> [])"
| "truthy (JObj kvs) = (kvs \<noteq> [])"

definition py_or :: "('n::zero) json \<Rightarrow> 'n json \<Rightarrow> 'n json" where
  "py_or a b = (if truthy a then a else b)"

text \<open>\<^verbatim>\<open>obj[key]\<close> with a string key.\<close>

fun py_getitem :: "'n json \<Rightarrow> pystr \<Rightarrow> error + 'n json" where
  "py_getitem (JObj kvs) key =
     (case map_of kvs key of None \<Rightarrow> Inl (KeyError key) | Some v \<Rightarrow> Inr v)"
| "py_getitem JNull key = Inl (TypeError (py ''NoneType object is not subscriptable''))"
| "py_getitem (JBool b) key = Inl (TypeError (py ''bool object is not subscriptable''))"
| "py_getitem (JNum x) key = Inl (TypeError (py ''number object is not subscriptable''))"
| "py_getitem (JStr s) key = Inl (TypeError (py ''string indices must be integers''))"
| "py_getitem (JArr xs) key = Inl (TypeError (py ''list indices must be integers or slices''))"

text \<open>\<^verbatim>\<open>obj.get(key)\<close>: only a dict has the method.\<close>

fun py_get :: "'n json \<Rightarrow> pystr \<Rightarrow> error + 'n json" where
  "py_get (JObj kvs) key = Inr (case map_of kvs key of None \<Rightarrow> JNull | Some v \<Rightarrow> v)"
| "py_get other key = Inl (AttributeError (py ''object has no attribute get''))"

text \<open>\<^verbatim>\<open>key in obj\<close> with a string key: a key of a dict, an element of a list, a substring
  of a string.\<close>

fun starts_with :: "pystr \<Rightarrow> pystr \<Rightarrow> bool" where
  "starts_with [] s = True"
| "starts_with (p # ps) [] = False"
| "starts_with (p # ps) (c # cs) = (p = c \<and> starts_with ps cs)"

fun has_substring :: "pystr \<Rightarrow> pystr \<Rightarrow> bool" where
  "has_substring p [] = (p = [])"
| "has_substring p (c # cs) = (starts_with p (c # cs) \<or> has_substring p cs)"

fun py_in :: "pystr \<Rightarrow> 'n json \<Rightarrow> error + bool" where
  "py_in key (JObj kvs) = Inr (key \<in> set (map fst kvs))"
| "py_in key (JArr xs) = Inr (JStr key \<in> set xs)"
| "py_in key (JStr s) = Inr (has_substring key s)"
| "py_in key other = Inl (TypeError (py ''argument is not iterable''))"

text \<open>\<^verbatim>\<open>for x in obj\<close>: the elements of a list, the keys of a dict, the characters of a
  string.\<close>

fun py_iter :: "'n json \<Rightarrow> error + 'n json list" where
  "py_iter (JArr xs) = Inr xs"
| "py_iter (JObj kvs) = Inr (map (\<lambda>kv. JStr (fst kv)) kvs)"
| "py_iter (JStr s) = Inr (map (\<lambda>c. JStr [c]) s)"
| "py_iter other = Inl (TypeError (py ''object is not iterable''))"

text \<open>
  \<^verbatim>\<open>value == n\<close> for a number \<open>n\<close>: a number equal to it, or a boolean (\<^verbatim>\<open>True == 1\<close>,
  \<^verbatim>\<open>False == 0\<close>). \<^verbatim>\<open>amount * value\<close> and \<^verbatim>\<open>amount / value\<close> for a float \<open>amount\<close>, which
  is what the docstrings say the amount is: defined on numbers and booleans; division by
  zero raises. (With an \<^verbatim>\<open>int\<close> amount, \<^verbatim>\<open>*\<close> would repeat a string or list instead of
  raising; the number type \<open>'n\<close> does not tell the two apart.)
\<close>

definition bool_num :: "bool \<Rightarrow> ('n::{zero,one})" where
  "bool_num b = (if b then 1 else 0)"

fun py_eq_num :: "('n::{zero,one}) json \<Rightarrow> 'n \<Rightarrow> bool" where
  "py_eq_num (JNum x) n = (x = n)"
| "py_eq_num (JBool b) n = (bool_num b = n)"
| "py_eq_num other n = False"

fun py_mul :: "('n::{zero,one,times}) \<Rightarrow> 'n json \<Rightarrow> error + 'n" where
  "py_mul amount (JNum x) = Inr (amount * x)"
| "py_mul amount (JBool b) = Inr (amount * bool_num b)"
| "py_mul amount other = Inl (TypeError (py ''unsupported operand type(s) for *''))"

fun py_div :: "('n::{zero,one,divide}) \<Rightarrow> 'n json \<Rightarrow> error + 'n" where
  "py_div amount (JNum x) =
     (if x = 0 then Inl (ZeroDivisionError (py ''division by zero'')) else Inr (amount div x))"
| "py_div amount (JBool b) =
     (if b then Inr (amount div 1) else Inl (ZeroDivisionError (py ''division by zero'')))"
| "py_div amount other = Inl (TypeError (py ''unsupported operand type(s) for /''))"

section \<open>The HTTP transport\<close>

text \<open>
  Every operation sends its requests to \<^verbatim>\<open>{api_url}/...\<close> with the client's fixed headers.
  A request is named by its verb and path, with the values the path and the body are built
  from. The remote system is a function from requests to replies: either
  \<^verbatim>\<open>requests.get\<close>/\<^verbatim>\<open>requests.post\<close> itself raises (no connection, time-out), or a
  response arrives, with a status code and a body that \<^verbatim>\<open>response.json()\<close> decodes
  (\<open>None\<close>: the body is not JSON).
\<close>

record 'n purchase_body =
  pb_amount :: 'n
  pb_transaction_type :: pystr
  pb_best_before_date :: int
  pb_price :: 'n
  pb_shopping_location_id :: "'n json"

datatype 'n request =
    GET_stock_products_by_barcode pystr
  | GET_objects_products_of_group int
  | GET_objects_product_groups
  | GET_objects_locations
  | GET_objects_quantity_units
  | GET_objects_shopping_locations
  | GET_stock_barcodes_external_lookup pystr
  | POST_objects_products "'n json"
  | POST_objects_product_barcodes "'n json"
  | GET_objects_products_id "'n json"
  | GET_stock_products_id "'n json"
  | GET_objects_products
  | GET_objects_quantity_unit_conversions
  | POST_stock_products_add "'n json" "'n purchase_body"

datatype 'n reply =
    Fails pystr
  | Response int "'n json option"

type_synonym 'n remote = "'n request \<Rightarrow> 'n reply"

text \<open>
  What an operation does besides returning: the requests it sends and the records it
  logs, in order. A log record is its level and its message; where the source formats a
  dict into the message, the model keeps the fixed part of the message only.
\<close>

datatype 'n event =
    Call "'n request"
  | LogInfo pystr
  | LogError pystr

type_synonym 'n outcome = "'n event list \<times> (error + 'n json)"

text \<open>
  \<^verbatim>\<open>response = requests.get(url, ...); response.raise_for_status(); response.json()\<close>.
  \<^verbatim>\<open>raise_for_status\<close> raises for the statuses 400 to 599.
\<close>

definition raise_for_status :: "int \<Rightarrow> error + unit" where
  "raise_for_status status =
     (if 400 \<le> status \<and> status < 600 then Inl (HTTPError status) else Inr ())"

definition response_json :: "'n json option \<Rightarrow> error + 'n json" where
  "response_json body =
     (case body of None \<Rightarrow> Inl (JSONDecodeError (py ''Expecting value'')) | Some j \<Rightarrow> Inr j)"

definition request_json :: "'n remote \<Rightarrow> 'n request \<Rightarrow> error + 'n json" where
  "request_json remote req =
     (case remote req of
        Fails msg \<Rightarrow> Inl (ConnectionError msg)
      | Response status body \<Rightarrow>
          (case raise_for_status status of
             Inl e \<Rightarrow> Inl e
           | Inr u \<Rightarrow> response_json body))"

section \<open>The read operations\<close>

text \<open>
  Each read operation has the shape
  \<^verbatim>\<open>try: response = requests.get(url); response.raise_for_status(); return response.json()\<close>
  \<^verbatim>\<open>except Exception as e: logger.error(f"...: {e}"); return <sentinel>\<close>.
  \<open>try_get\<close> is that shape, with the request, the message and the sentinel of the operation.
\<close>

definition try_get :: "'n remote \<Rightarrow> 'n request \<Rightarrow> pystr \<Rightarrow> 'n json \<Rightarrow> 'n outcome" where
  "try_get remote req message sentinel =
     (case request_json remote req of
        Inr j \<Rightarrow> ([Call req], Inr j)
      | Inl e \<Rightarrow> ([Call req, LogError (message @ error_text e)], Inr sentinel))"

definition find_product_by_barcode :: "('n::zero) remote \<Rightarrow> pystr \<Rightarrow> 'n outcome" where
  "find_product_by_barcode remote barcode =
     (let info = LogInfo (py ''Finding product by barcode: '' @ barcode);
          req = GET_stock_products_by_barcode barcode
      in case request_json remote req of
           Inr j \<Rightarrow> ([info, Call req], Inr (py_or j JNull))
         | Inl e \<Rightarrow>
             ([info, Call req, LogError (py ''Error finding product by barcode: '' @ error_text e)],
              Inr JNull))"

definition products_for_group :: "('n::zero) remote \<Rightarrow> int \<Rightarrow> 'n outcome" where
  "products_for_group remote product_group_id =
     (let info = LogInfo (py ''Finding products by group: '' @ py_str product_group_id);
          req = GET_objects_products_of_group product_group_id
      in case request_json remote req of
           Inr j \<Rightarrow> ([info, Call req], Inr (py_or j (JArr [])))
         | Inl e \<Rightarrow>
             ([info, Call req, LogError (py ''Error finding products by group: '' @ error_text e)],
              Inr (JArr [])))"

definition get_product_categories :: "'n remote \<Rightarrow> 'n outcome" where
  "get_product_categories remote =
     try_get remote GET_objects_product_groups (py ''Error getting product categories: '') (JArr [])"

definition get_locations :: "'n remote \<Rightarrow> 'n outcome" where
  "get_locations remote =
     try_get remote GET_objects_locations (py ''Error getting locations: '') (JArr [])"

definition get_quantity_units :: "'n remote \<Rightarrow> 'n outcome" where
  "get_quantity_units remote =
     try_get remote GET_objects_quantity_units (py ''Error getting quantity units: '') (JArr [])"

definition get_shopping_locations :: "'n remote \<Rightarrow> 'n outcome" where
  "get_shopping_locations remote =
     try_get remote GET_objects_shopping_locations (py ''Error getting shopping locations: '') (JArr [])"

definition external_lookup :: "'n remote \<Rightarrow> pystr \<Rightarrow> 'n outcome" where
  "external_lookup remote barcode =
     try_get remote (GET_stock_barcodes_external_lookup barcode)
       (py ''Error performing external barcode lookup: '') (JObj [])"

definition get_product :: "'n remote \<Rightarrow> 'n json \<Rightarrow> 'n outcome" where
  "get_product remote product_id =
     try_get remote (GET_objects_products_id product_id) (py ''Error getting product: '') JNull"

definition get_product_details :: "'n remote \<Rightarrow> 'n json \<Rightarrow> 'n outcome" where
  "get_product_details remote product_id =
     try_get remote (GET_stock_products_id product_id) (py ''Error getting product details: '') JNull"

definition get_all_products :: "'n remote \<Rightarrow> 'n outcome" where
  "get_all_products remote =
     try_get remote GET_objects_products (py ''Error getting all products: '') JNull"

definition get_quantity_unit_conversions :: "'n remote \<Rightarrow> 'n outcome" where
  "get_quantity_unit_conversions remote =
     try_get remote GET_objects_quantity_unit_conversions
       (py ''Error getting quantity unit conversions: '') (JArr [])"

text \<open>
  \<^verbatim>\<open>next((p for p in products if p.get('name') == product_name), None)\<close>: the generator is
  lazy, so the scan ends at the first match; \<^verbatim>\<open>p.get\<close> raises on an element that is not a
  dict, and iterating \<^verbatim>\<open>products\<close> raises when it is not iterable. Nothing catches either.
\<close>

fun first_named :: "pystr \<Rightarrow> 'n json list \<Rightarrow> error + 'n json" where
  "first_named product_name [] = Inr JNull"
| "first_named product_name (p # ps) =
     (case py_get p (py ''name'') of
        Inl e \<Rightarrow> Inl e
      | Inr v \<Rightarrow> if v = JStr product_name then Inr p else first_named product_name ps)"

definition get_product_by_name :: "'n remote \<Rightarrow> pystr \<Rightarrow> 'n outcome" where
  "get_product_by_name remote product_name =
     (let (ev, r) = get_all_products remote
      in case r of
           Inl e \<Rightarrow> (ev, Inl e)
         | Inr products \<Rightarrow>
             (case py_iter products of
                Inl e \<Rightarrow> (ev, Inl e)
              | Inr ps \<Rightarrow> (ev, first_named product_name ps)))"

section \<open>Unit conversion\<close>

text \<open>
  The loop of \<open>convert_purchase_quantities_to_stock\<close>. \<^verbatim>\<open>and\<close> evaluates its right operand
  only when the left one is true, and \<^verbatim>\<open>conversion['factor']\<close> is read only on a match.
\<close>

fun scan_conversions ::
  "('n::{zero,one,times}) \<Rightarrow> 'n \<Rightarrow> 'n \<Rightarrow> 'n json list \<Rightarrow> error + 'n json" where
  "scan_conversions purchase_id stock_id amount [] = Inr (JNum amount)"
| "scan_conversions purchase_id stock_id amount (conversion # rest) =
     (case py_getitem conversion (py ''from_qu_id'') of
        Inl e \<Rightarrow> Inl e
      | Inr from_qu_id \<Rightarrow>
          if py_eq_num from_qu_id purchase_id then
            (case py_getitem conversion (py ''to_qu_id'') of
               Inl e \<Rightarrow> Inl e
             | Inr to_qu_id \<Rightarrow>
                 if py_eq_num to_qu_id stock_id then
                   (case py_getitem conversion (py ''factor'') of
                      Inl e \<Rightarrow> Inl e
                    | Inr factor \<Rightarrow>
                        (case py_mul amount factor of
                           Inl e \<Rightarrow> Inl e
                         | Inr converted \<Rightarrow> Inr (JNum converted)))
                 else scan_conversions purchase_id stock_id amount rest)
          else scan_conversions purchase_id stock_id amount rest)"

definition convert_purchase_quantities_to_stock ::
  "('n::{zero,one,times}) remote \<Rightarrow> 'n \<Rightarrow> 'n \<Rightarrow> 'n \<Rightarrow> 'n outcome" where
  "convert_purchase_quantities_to_stock remote purchase_id stock_id amount =
     (let (ev, r) = get_quantity_unit_conversions remote
      in case r of
           Inl e \<Rightarrow> (ev, Inl e)
         | Inr conversions \<Rightarrow>
             (case (case py_iter conversions of
                      Inl e \<Rightarrow> Inl e
                    | Inr cs \<Rightarrow> scan_conversions purchase_id stock_id amount cs) of
                Inr v \<Rightarrow> (ev, Inr v)
              | Inl e \<Rightarrow>
                  (ev @ [LogError (py ''Error converting quantities: '' @ error_text e)],
                   Inr (JObj [(py ''error'', JStr (error_text e))]))))"

subsection \<open>The words of the specification\<close>

text \<open>
  A conversion table, in the specification's sense, is a sequence of triples (source unit
  id, destination unit id, factor). \<open>triple_of\<close> reads the triple off a dict that the remote
  system sends (which may have more keys); \<open>spec_convert\<close> is the specified result: the
  amount times the factor of the first triple for the requested pair, and the amount itself
  when there is none.
\<close>

definition triple_of :: "'n json \<Rightarrow> ('n \<times> 'n \<times> 'n) option" where
  "triple_of conversion =
     (case conversion of
        JObj kvs \<Rightarrow>
          (case (map_of kvs (py ''from_qu_id''), map_of kvs (py ''to_qu_id''), map_of kvs (py ''factor'')) of
             (Some (JNum from_id), Some (JNum to_id), Some (JNum factor)) \<Rightarrow>
               Some (from_id, to_id, factor)
           | _ \<Rightarrow> None)
      | _ \<Rightarrow> None)"

definition spec_convert :: "('n \<times> 'n \<times> 'n) list \<Rightarrow> 'n \<Rightarrow> 'n \<Rightarrow> ('n::times) \<Rightarrow> 'n" where
  "spec_convert table purchase_id stock_id amount =
     (case find (\<lambda>t. fst t = purchase_id \<and> fst (snd t) = stock_id) table of
        None \<Rightarrow> amount
      | Some t \<Rightarrow> amount * snd (snd t))"

definition error_object :: "'n json \<Rightarrow> bool" where
  "error_object v = (case v of JObj kvs \<Rightarrow> (py ''error'') \<in> set (map fst kvs) | _ \<Rightarrow> False)"

definition logged_errors :: "'n event list \<Rightarrow> pystr list" where
  "logged_errors ev = concat (map (\<lambda>x. case x of LogError msg \<Rightarrow> [msg] | _ \<Rightarrow> []) ev)"

section \<open>The write operations\<close>

definition dict_get :: "(pystr \<times> 'n json) list \<Rightarrow> pystr \<Rightarrow> 'n json \<Rightarrow> 'n json" where
  "dict_get d key dflt = (case map_of d key of None \<Rightarrow> dflt | Some v \<Rightarrow> v)"

text \<open>
  \<open>add_barcode_to_product\<close> normalises the barcode before its \<^verbatim>\<open>try\<close>, so an exception of
  \<open>normalize_receipt_barcode\<close> leaves the operation.
\<close>

definition add_barcode_to_product ::
  "('n::one) remote \<Rightarrow> 'n json \<Rightarrow> pystr \<Rightarrow> (pystr \<times> 'n json) list \<Rightarrow> 'n outcome" where
  "add_barcode_to_product remote product_id barcode assignments =
     (case normalize_receipt_barcode barcode of
        Inl e \<Rightarrow> ([], Inl e)
      | Inr standardized_barcode \<Rightarrow>
          (let grocy_barcode = JObj
                 [(py ''shopping_location_id'', dict_get assignments (py ''shopping_location_id'') (JStr [])),
                  (py ''note'', dict_get assignments (py ''note'') (JStr [])),
                  (py ''barcode'', JStr standardized_barcode),
                  (py ''product_id'', product_id),
                  (py ''amount'', dict_get assignments (py ''display_amount'') (JNum 1))];
               req = POST_objects_product_barcodes grocy_barcode
           in case request_json remote req of
                Inr j \<Rightarrow> ([LogInfo (py ''Adding barcode''), Call req], Inr j)
              | Inl e \<Rightarrow>
                  ([LogInfo (py ''Adding barcode''), Call req,
                    LogError (py ''Error adding barcode to product: '' @ error_text e)],
                   Inr (JObj [(py ''error'', JStr (error_text e))]))))"

text \<open>
  The argument of \<open>create_product\<close>: a dict with the key \<^verbatim>\<open>name\<close> and the optional keys the
  docstring lists. A key read with \<^verbatim>\<open>.get(key)\<close> is \<open>JNull\<close> when absent.
\<close>

record 'n product_data =
  pd_name :: pystr
  pd_description :: "pystr option"
  pd_product_group_id :: "'n json"
  pd_location_id :: "'n json"
  pd_qu_id_purchase :: "'n json"
  pd_qu_id_stock :: "'n json"
  pd_barcode :: "pystr option"
  pd_out_of_stock_default :: "bool option"

definition grocy_product :: "'n product_data \<Rightarrow> 'n json" where
  "grocy_product product_data = JObj
     [(py ''name'', JStr (pd_name product_data)),
      (py ''description'', JStr (case pd_description product_data of None \<Rightarrow> [] | Some d \<Rightarrow> d)),
      (py ''product_group_id'', pd_product_group_id product_data),
      (py ''location_id'', pd_location_id product_data),
      (py ''qu_id_purchase'', pd_qu_id_purchase product_data),
      (py ''qu_id_stock'', pd_qu_id_stock product_data),
      (py ''treat_opened_as_out_of_stock'',
         JBool (case pd_out_of_stock_default product_data of None \<Rightarrow> False | Some b \<Rightarrow> b))]"

text \<open>
  The \<^verbatim>\<open>try\<close> block of \<open>create_product\<close> ends in one of three ways: it returns the error
  dict of a 400 response (\<open>Returned\<close>), it binds \<^verbatim>\<open>product\<close> (\<open>Product\<close>), or it raises
  (\<open>Inl\<close>), which the \<^verbatim>\<open>except\<close> clause turns into the lookup by name.
\<close>

datatype 'n attempt =
    Returned "'n json"
  | Product "'n json"

definition object_body :: "'n json option \<Rightarrow> bool" where
  "object_body body = (case body of Some (JObj kvs) \<Rightarrow> True | _ \<Rightarrow> False)"

definition create_product_try ::
  "'n remote \<Rightarrow> 'n json \<Rightarrow> 'n event list \<times> (error + 'n attempt)" where
  "create_product_try remote body_sent =
     (let req = POST_objects_products body_sent
      in case remote req of
           Fails msg \<Rightarrow> ([Call req], Inl (ConnectionError msg))
         | Response status_code body \<Rightarrow>
             if status_code = 400 then
               (case response_json body of
                  Inl e \<Rightarrow> ([Call req], Inl e)
                | Inr j \<Rightarrow>
                    (case py_get j (py ''error'') of
                       Inl e \<Rightarrow> ([Call req], Inl e)
                     | Inr error_msg \<Rightarrow>
                         ([Call req, LogError (py ''Error creating product'')],
                          Inr (Returned (JObj [(py ''error'', error_msg)])))))
             else
               (case response_json body of
                  Inl e \<Rightarrow> ([Call req], Inl e)
                | Inr j \<Rightarrow>
                    (case py_get j (py ''created_object_id'') of
                       Inl e \<Rightarrow> ([Call req], Inl e)
                     | Inr product_id \<Rightarrow>
                         (let (ev, r) = get_product remote product_id
                          in (Call req # ev,
                              case r of Inl e \<Rightarrow> Inl e | Inr p \<Rightarrow> Inr (Product p))))))"

text \<open>
  The rest of \<open>create_product\<close>, after \<^verbatim>\<open>product\<close> is bound:
  \<^verbatim>\<open>if product and 'barcode' in product_data: ...\<close> and \<^verbatim>\<open>return product or None\<close>.
\<close>

definition attach_barcode ::
  "('n::{zero,one}) remote \<Rightarrow> 'n product_data \<Rightarrow> 'n event list \<Rightarrow> 'n json \<Rightarrow> 'n outcome" where
  "attach_barcode remote product_data ev product =
     (case pd_barcode product_data of
        None \<Rightarrow> (ev, Inr (py_or product JNull))
      | Some barcode \<Rightarrow>
          if truthy product then
            (case py_getitem product (py ''id'') of
               Inl e \<Rightarrow> (ev, Inl e)
             | Inr product_id \<Rightarrow>
                 (let (ev', r) = add_barcode_to_product remote product_id barcode
                                   [(py ''note'', JStr (pd_name product_data))]
                  in case r of
                       Inl e \<Rightarrow> (ev @ ev', Inl e)
                     | Inr barcode_response \<Rightarrow>
                         (case py_in (py ''error'') barcode_response of
                            Inl e \<Rightarrow> (ev @ ev', Inl e)
                          | Inr found \<Rightarrow>
                              if found then
                                (case py_getitem barcode_response (py ''error'') of
                                   Inl e \<Rightarrow> (ev @ ev', Inl e)
                                 | Inr msg \<Rightarrow> (ev @ ev', Inr (JObj [(py ''error'', msg)])))
                              else (ev @ ev', Inr (py_or product JNull)))))
          else (ev, Inr (py_or product JNull)))"

definition create_product :: "('n::{zero,one}) remote \<Rightarrow> 'n product_data \<Rightarrow> 'n outcome" where
  "create_product remote product_data =
     (let (ev, r) = create_product_try remote (grocy_product product_data);
          ev1 = LogInfo (py ''Creating product with data'') # ev
      in case r of
           Inr (Returned error_dict) \<Rightarrow> (ev1, Inr error_dict)
         | Inr (Product product) \<Rightarrow> attach_barcode remote product_data ev1 product
         | Inl e \<Rightarrow>
             (let (ev', r') = get_product_by_name remote (pd_name product_data);
                  ev2 = ev1 @
                    [LogError (py ''Error creating product, trying to find by name: '' @ error_text e)]
                    @ ev'
              in case r' of
                   Inl e' \<Rightarrow> (ev2, Inl e')
                 | Inr product \<Rightarrow> attach_barcode remote product_data ev2 product))"

text \<open>
  The argument of \<open>add_purchase\<close>, with the keys of its docstring; \<^verbatim>\<open>price\<close> is optional.
  A date is its proleptic Gregorian ordinal, \<open>today\<close> that of \<^verbatim>\<open>date.today()\<close>.
  \<^verbatim>\<open>timedelta(days=d)\<close> raises \<^verbatim>\<open>OverflowError\<close> beyond 999999999 days, and the sum beyond
  \<^verbatim>\<open>date.max\<close> (ordinal 3652059) or below \<^verbatim>\<open>date.min\<close> (ordinal 1).
\<close>

record 'n purchase_data =
  pu_product_id :: "'n json"
  pu_amount :: 'n
  pu_days_out :: int
  pu_shopping_location_id :: "'n json"
  pu_price :: "'n option"

definition expiration_date :: "int \<Rightarrow> int \<Rightarrow> error + int" where
  "expiration_date today days_out =
     (if days_out < - 999999999 \<or> 999999999 < days_out
      then Inl (OverflowError (py ''days out of range''))
      else if today + days_out < 1 \<or> 3652059 < today + days_out
      then Inl (OverflowError (py ''date value out of range''))
      else Inr (today + days_out))"

definition add_purchase ::
  "('n::{zero,one,times,divide}) remote \<Rightarrow> int \<Rightarrow> 'n purchase_data \<Rightarrow> 'n outcome" where
  "add_purchase remote today purchase_data =
     (let (ev, r) = get_product_details remote (pu_product_id purchase_data);
          ev1 = ev @ [LogInfo (py ''Adding purchase for product'')]
      in case r of
           Inl e \<Rightarrow> (ev, Inl e)
         | Inr product_data \<Rightarrow>
      (case expiration_date today (pu_days_out purchase_data) of
           Inl e \<Rightarrow> (ev1, Inl e)
         | Inr best_before \<Rightarrow>
      (case py_getitem product_data (py ''qu_conversion_factor_purchase_to_stock'') of
           Inl e \<Rightarrow> (ev1, Inl e)
         | Inr factor \<Rightarrow>
      (case py_mul (pu_amount purchase_data) factor of
           Inl e \<Rightarrow> (ev1, Inl e)
         | Inr calc_amount \<Rightarrow>
      (case py_div (case pu_price purchase_data of None \<Rightarrow> 0 | Some p \<Rightarrow> p) factor of
           Inl e \<Rightarrow> (ev1, Inl e)
         | Inr calc_price \<Rightarrow>
             (let req = POST_stock_products_add (pu_product_id purchase_data)
                          \<lparr>pb_amount = calc_amount,
                           pb_transaction_type = (py ''purchase''),
                           pb_best_before_date = best_before,
                           pb_price = calc_price,
                           pb_shopping_location_id = pu_shopping_location_id purchase_data\<rparr>
              in case request_json remote req of
                   Inr j \<Rightarrow> (ev1 @ [Call req], Inr j)
                 | Inl e \<Rightarrow>
                     (ev1 @ [Call req, LogError (py ''Error adding purchase: '' @ error_text e)],
                      Inr (JObj [(py ''error'', JStr (error_text e))]))))))))"

section \<open>Properties of the barcode normalisation\<close>

lemmas barcode_eval =
  normalize_receipt_barcode_def build_upc_from_receipt_def calculate_upc_check_digit_def
  isdigit_def isdigit_char_def is_decimal_char_def py_int_def py_str_def digits_of.simps
  numeric_digits_def raises_ValueError_def py_def decimal_value_def decimal_zeros_def
  other_digits_def decimal_digits_def

text \<open>A literal is its list of code points.\<close>

declare py_def [simp]


lemma decimal_value_ascii:
  "is_decimal_char c \<Longrightarrow> decimal_value c = Some (c - 0x30)"
  by (simp add: is_decimal_char_def decimal_value_def decimal_zeros_def)

lemma py_int_decimal: "is_decimal_char c \<Longrightarrow> py_int c = Inr (digit_value c)"
  by (simp add: py_int_def digit_value_def decimal_value_ascii is_decimal_char_def)

lemma numeric_digits_decimal: "numeric_digits s \<Longrightarrow> decimal_digits s"
  by (induction s) (simp_all add: numeric_digits_def decimal_digits_def decimal_value_ascii)

lemma decimal_digits_isdigit: "decimal_digits s \<Longrightarrow> s \<noteq> [] \<Longrightarrow> isdigit s"
  by (auto simp add: decimal_digits_def isdigit_def isdigit_char_def list_all_iff)

lemma weighted_total_decimal:
  "numeric_digits s \<Longrightarrow>
   weighted_total i acc s =
     Inr (acc + (\<Sum>k < length s. digit_value (s ! k) * (if even (i + k) then 3 else 1)))"
proof (induction s arbitrary: i acc)
  case Nil
  then show ?case by simp
next
  case (Cons c cs)
  from Cons.prems have c: "is_decimal_char c" and cs: "numeric_digits cs"
    by (simp_all add: numeric_digits_def)
  have "weighted_total i acc (c # cs) =
        weighted_total (Suc i) (acc + digit_value c * (if i mod 2 = 0 then 3 else 1)) cs"
    using c by (simp add: py_int_decimal)
  also have "\<dots> = Inr (acc + digit_value c * (if i mod 2 = 0 then 3 else 1) +
       (\<Sum>k < length cs. digit_value (cs ! k) * (if even (Suc i + k) then 3 else 1)))"
    by (rule Cons.IH [OF cs])
  also have "\<dots> = Inr (acc + (\<Sum>k < length (c # cs).
        digit_value ((c # cs) ! k) * (if even (i + k) then 3 else 1)))"
    by (simp add: sum.lessThan_Suc_shift even_iff_mod_2_eq_zero del: sum.lessThan_Suc)
  finally show ?case .
qed

lemma weighted_total_spec:
  "numeric_digits s \<Longrightarrow> weighted_total 0 0 s = Inr (spec_weighted_sum s)"
  by (simp add: weighted_total_decimal spec_weighted_sum_def)

lemma py_str_digit:
  assumes "0 \<le> d" "d < 10"
  shows "py_str d = [digit_char d]"
proof -
  from assms have "nat d < 10" by simp
  then have "digits_of (nat d) = [0x30 + nat d]"
    by (subst digits_of.simps) simp
  with assms show ?thesis by (simp add: py_str_def digit_char_def)
qed

lemma numeric_digits_isdigit: "numeric_digits s \<Longrightarrow> s \<noteq> [] \<Longrightarrow> isdigit s"
  by (simp add: numeric_digits_decimal decimal_digits_isdigit)




lemma calculate_decimal:
  assumes "length s = 11" "numeric_digits s"
  shows "calculate_upc_check_digit s =
           Inr [digit_char ((10 - spec_weighted_sum s mod 10) mod 10)]"
proof -
  from assms have "s \<noteq> []" by auto
  with assms have "isdigit s" by (simp add: numeric_digits_isdigit)
  moreover have "0 \<le> (10 - spec_weighted_sum s mod 10) mod 10"
    and "(10 - spec_weighted_sum s mod 10) mod 10 < 10" by simp_all
  ultimately show ?thesis
    using assms by (simp add: calculate_upc_check_digit_def weighted_total_spec py_str_digit)
qed


lemma check_sum_zero: "((t::int) + (10 - t mod 10) mod 10) mod 10 = 0"
  by presburger

lemma build_decimal:
  assumes len: "length r = 10" and num: "numeric_digits r"
  shows "build_upc_from_receipt r =
           Inr (py ''0'' @ r @ [digit_char ((10 - spec_weighted_sum (py ''0'' @ r) mod 10) mod 10)])"
proof -
  from len have ne: "r \<noteq> []" by auto
  have dig: "isdigit r" using num ne by (rule numeric_digits_isdigit)
  have nb: "numeric_digits (py ''0'' @ r)"
    using num by (simp add: numeric_digits_def is_decimal_char_def)
  have "calculate_upc_check_digit (py ''0'' @ r) =
          Inr [digit_char ((10 - spec_weighted_sum (py ''0'' @ r) mod 10) mod 10)]"
    using len nb by (simp add: calculate_decimal)
  then show ?thesis using len dig by (simp add: build_upc_from_receipt_def)
qed




text \<open>
  Claim C1. For every string of exactly 11 numeric digits, \<open>calculate_upc_check_digit\<close>
  returns a single digit \<open>d\<close>, which is (10 - (sum mod 10)) mod 10 for the sum of the digits
  weighted 3 at the even 0-based indices and 1 at the odd ones, so that (sum + d) mod 10 = 0;
  and \<open>calculate_upc_check_digit\<close> of \<open>03600029145\<close> returns \<open>2\<close>.
\<close>

theorem calculate_upc_check_digit_correct:
  "(length s = 11 \<and> numeric_digits s \<longrightarrow>
      (\<exists>d. 0 \<le> d \<and> d < 10
         \<and> calculate_upc_check_digit s = Inr [digit_char d]
         \<and> d = (10 - spec_weighted_sum s mod 10) mod 10
         \<and> (spec_weighted_sum s + d) mod 10 = 0))
   \<and> calculate_upc_check_digit (py ''03600029145'') = Inr (py ''2'')"
proof (intro conjI impI)
  assume a: "length s = 11 \<and> numeric_digits s"
  define d where "d = (10 - spec_weighted_sum s mod 10) mod 10"
  have "0 \<le> d" and "d < 10" by (simp_all add: d_def)
  moreover have "calculate_upc_check_digit s = Inr [digit_char d]"
    using a by (simp add: calculate_decimal d_def)
  moreover have "(spec_weighted_sum s + d) mod 10 = 0"
    unfolding d_def by (rule check_sum_zero)
  ultimately have "0 \<le> d \<and> d < 10
         \<and> calculate_upc_check_digit s = Inr [digit_char d]
         \<and> d = (10 - spec_weighted_sum s mod 10) mod 10
         \<and> (spec_weighted_sum s + d) mod 10 = 0"
    using d_def by simp
  then show "\<exists>d. 0 \<le> d \<and> d < 10
         \<and> calculate_upc_check_digit s = Inr [digit_char d]
         \<and> d = (10 - spec_weighted_sum s mod 10) mod 10
         \<and> (spec_weighted_sum s + d) mod 10 = 0" by (rule exI)
next
  show "calculate_upc_check_digit (py ''03600029145'') = Inr (py ''2'')"
    by (simp add: barcode_eval)
qed

theorem calculate_upc_check_digit_correct_witness:
  "length (py ''03600029145'') = 11 \<and> numeric_digits (py ''03600029145'') \<and>
   (\<exists>d. 0 \<le> d \<and> d < 10
         \<and> calculate_upc_check_digit (py ''03600029145'') = Inr [digit_char d]
         \<and> d = (10 - spec_weighted_sum (py ''03600029145'') mod 10) mod 10
         \<and> (spec_weighted_sum (py ''03600029145'') + d) mod 10 = 0)"
proof -
  have h: "length (py ''03600029145'') = 11 \<and> numeric_digits (py ''03600029145'')"
    by (simp add: numeric_digits_def is_decimal_char_def)
  from calculate_upc_check_digit_correct [of "(py ''03600029145'')"] have
    "length (py ''03600029145'') = 11 \<and> numeric_digits (py ''03600029145'') \<longrightarrow>
      (\<exists>d. 0 \<le> d \<and> d < 10
         \<and> calculate_upc_check_digit (py ''03600029145'') = Inr [digit_char d]
         \<and> d = (10 - spec_weighted_sum (py ''03600029145'') mod 10) mod 10
         \<and> (spec_weighted_sum (py ''03600029145'') + d) mod 10 = 0)" by (rule conjunct1)
  from this h have "\<exists>d. 0 \<le> d \<and> d < 10
         \<and> calculate_upc_check_digit (py ''03600029145'') = Inr [digit_char d]
         \<and> d = (10 - spec_weighted_sum (py ''03600029145'') mod 10) mod 10
         \<and> (spec_weighted_sum (py ''03600029145'') + d) mod 10 = 0" by (rule mp)
  with h show ?thesis by (intro conjI) (rule conjunct1, assumption, rule conjunct2, assumption, assumption)
qed

text \<open>
  Claim C2. For every string \<open>r\<close> of exactly 10 numeric digits, \<open>build_upc_from_receipt r\<close>
  returns a string of length 12 that starts with \<open>0\<close>, continues with \<open>r\<close>, and whose last
  character is what \<open>calculate_upc_check_digit\<close> returns on its first 11 characters.
\<close>

theorem build_upc_from_receipt_correct:
  "length r = 10 \<Longrightarrow> numeric_digits r \<Longrightarrow>
     \<exists>u. build_upc_from_receipt r = Inr u \<and> length u = 12 \<and> take 1 u = (py ''0'')
        \<and> take 11 u = py ''0'' @ r
        \<and> calculate_upc_check_digit (take 11 u) = Inr [last u]"
proof -
  assume len: "length r = 10" and num: "numeric_digits r"
  define check where "check = digit_char ((10 - spec_weighted_sum (py ''0'' @ r) mod 10) mod 10)"
  define u where "u = py ''0'' @ r @ [check]"
  have nb: "numeric_digits (py ''0'' @ r)"
    using num by (simp add: numeric_digits_def is_decimal_char_def)
  have b: "build_upc_from_receipt r = Inr u"
    using len num by (simp add: build_decimal u_def check_def)
  have t: "take 11 u = py ''0'' @ r" using len by (simp add: u_def)
  have lb: "length (py ''0'' @ r) = 11" using len by simp
  have "calculate_upc_check_digit (py ''0'' @ r) = Inr [check]"
    using lb nb unfolding check_def by (rule calculate_decimal)
  moreover have "last u = check" by (simp add: u_def)
  ultimately have c: "calculate_upc_check_digit (take 11 u) = Inr [last u]"
    using t by simp
  have "length u = 12" using len by (simp add: u_def)
  moreover have "take 1 u = (py ''0'')" by (simp add: u_def)
  ultimately have "build_upc_from_receipt r = Inr u \<and> length u = 12 \<and> take 1 u = (py ''0'')
        \<and> take 11 u = py ''0'' @ r
        \<and> calculate_upc_check_digit (take 11 u) = Inr [last u]"
    using b t c by simp
  then show ?thesis by (rule exI)
qed

theorem build_upc_from_receipt_correct_witness:
  "length (py ''1234567890'') = 10 \<and> numeric_digits (py ''1234567890'') \<and>
     (\<exists>u. build_upc_from_receipt (py ''1234567890'') = Inr u \<and> length u = 12 \<and> take 1 u = (py ''0'')
        \<and> take 11 u = py ''0'' @ (py ''1234567890'')
        \<and> calculate_upc_check_digit (take 11 u) = Inr [last u])"
proof -
  have l: "length (py ''1234567890'') = 10" by simp
  have n: "numeric_digits (py ''1234567890'')"
    by (simp add: numeric_digits_def is_decimal_char_def)
  from build_upc_from_receipt_correct [OF l n]
  have "\<exists>u. build_upc_from_receipt (py ''1234567890'') = Inr u \<and> length u = 12 \<and> take 1 u = (py ''0'')
        \<and> take 11 u = py ''0'' @ (py ''1234567890'')
        \<and> calculate_upc_check_digit (take 11 u) = Inr [last u]" .
  with n have "numeric_digits (py ''1234567890'') \<and>
     (\<exists>u. build_upc_from_receipt (py ''1234567890'') = Inr u \<and> length u = 12 \<and> take 1 u = (py ''0'')
        \<and> take 11 u = py ''0'' @ (py ''1234567890'')
        \<and> calculate_upc_check_digit (take 11 u) = Inr [last u])" by (rule conjI)
  with l show ?thesis by (rule conjI)
qed




lemma normalize_receipt_barcode_cases:
  "(length s = 10 \<and> numeric_digits s \<longrightarrow>
      normalize_receipt_barcode s = build_upc_from_receipt s \<and> \<not> isl (build_upc_from_receipt s))
   \<and> (\<not> (length s = 10 \<and> isdigit s) \<longrightarrow> normalize_receipt_barcode s = Inr s)"
proof (intro conjI impI)
  assume a: "length s = 10 \<and> numeric_digits s"
  then have "s \<noteq> []" by auto
  with a have "isdigit s" by (simp add: numeric_digits_isdigit)
  with a show "normalize_receipt_barcode s = build_upc_from_receipt s"
    by (simp add: normalize_receipt_barcode_def)
  from a show "\<not> isl (build_upc_from_receipt s)" by (simp add: build_decimal)
next
  assume "\<not> (length s = 10 \<and> isdigit s)"
  then show "normalize_receipt_barcode s = Inr s"
    by (auto simp add: normalize_receipt_barcode_def)
qed

text \<open>
  Claim C3, at the input of ten characters \<open>123456789\<close> followed by U+00B2 (superscript
  two). \<^verbatim>\<open>isdigit\<close> accepts the string, so \<open>normalize_receipt_barcode\<close> takes the 10-digit
  branch, where \<^verbatim>\<open>int\<close> rejects the last character: the call raises \<^verbatim>\<open>ValueError\<close> and
  returns neither a derived code nor its input.
\<close>

theorem normalize_receipt_barcode_superscript_raises:
  "normalize_receipt_barcode (py ''123456789'' @ [0xB2]) =
     Inl (ValueError (py ''invalid literal for int() with base 10: '' @ [0x27, 0xB2, 0x27]))"
  by (simp add: barcode_eval)

text \<open>
  Claim C10. \<open>normalize_receipt_barcode\<close> is idempotent: applying it to its own result gives
  that result again (and where the first application raises, so does the composition, with
  the same exception). The derived code of the 10-digit branch is longer than 10
  characters, so the second application leaves it unchanged.
\<close>

theorem normalize_receipt_barcode_idempotent:
  "(case normalize_receipt_barcode s of
      Inl e \<Rightarrow> Inl e
    | Inr t \<Rightarrow> normalize_receipt_barcode t) = normalize_receipt_barcode s"
proof (cases "length s = 10 \<and> isdigit s")
  case False
  then show ?thesis by (auto simp add: normalize_receipt_barcode_def)
next
  case True
  show ?thesis
  proof (cases "calculate_upc_check_digit (py ''0'' @ s)")
    case (Inl e)
    with True show ?thesis
      by (simp add: normalize_receipt_barcode_def build_upc_from_receipt_def)
  next
    case (Inr check)
    with True have "normalize_receipt_barcode s = Inr (py ''0'' @ s @ check)"
      by (simp add: normalize_receipt_barcode_def build_upc_from_receipt_def)
    moreover have "length (py ''0'' @ s @ check) \<noteq> 10" using True by simp
    ultimately show ?thesis by (simp add: normalize_receipt_barcode_def)
  qed
qed

theorem normalize_receipt_barcode_idempotent_witness:
  "normalize_receipt_barcode (py ''1234567890'') = Inr (py ''012345678905'')
   \<and> normalize_receipt_barcode (py ''012345678905'') = Inr (py ''012345678905'')"
proof -
  have a: "normalize_receipt_barcode (py ''1234567890'') = Inr (py ''012345678905'')"
    by (simp add: barcode_eval)
  from normalize_receipt_barcode_idempotent [of "(py ''1234567890'')"] a
  have "normalize_receipt_barcode (py ''012345678905'') = Inr (py ''012345678905'')" by simp
  with a show ?thesis by (rule conjI)
qed

declare py_def [simp del]

section \<open>Properties of the unit conversion\<close>

lemma triple_of_fields:
  assumes "triple_of c = Some (f, t, k)"
  shows "py_getitem c (py ''from_qu_id'') = Inr (JNum f)"
    and "py_getitem c (py ''to_qu_id'') = Inr (JNum t)"
    and "py_getitem c (py ''factor'') = Inr (JNum k)"
  using assms
  by (auto simp add: triple_of_def split: json.splits option.splits)

lemma scan_conversions_table:
  "map triple_of cs = map Some table \<Longrightarrow>
   scan_conversions purchase_id stock_id amount cs =
     Inr (JNum (spec_convert table purchase_id stock_id amount))"
proof (induction cs arbitrary: table)
  case Nil
  then show ?case by (simp add: spec_convert_def)
next
  case (Cons c cs)
  from Cons.prems obtain t rest where table: "table = t # rest"
    and c: "triple_of c = Some t" and cs: "map triple_of cs = map Some rest"
    by (cases table) auto
  obtain f d k where t: "t = (f, d, k)" by (cases t)
  note fields = triple_of_fields [OF c [unfolded t]]
  show ?case
  proof (cases "f = purchase_id \<and> d = stock_id")
    case True
    then show ?thesis by (simp add: fields table t spec_convert_def)
  next
    case False
    then have "scan_conversions purchase_id stock_id amount (c # cs) =
               scan_conversions purchase_id stock_id amount cs"
      by (auto simp add: fields)
    also have "\<dots> = Inr (JNum (spec_convert rest purchase_id stock_id amount))"
      by (rule Cons.IH [OF cs])
    also have "spec_convert rest purchase_id stock_id amount =
               spec_convert table purchase_id stock_id amount"
      using False by (auto simp add: table t spec_convert_def)
    finally show ?thesis .
  qed
qed

lemma request_json_ok:
  "remote req = Response status (Some j) \<Longrightarrow> \<not> (400 \<le> status \<and> status < 600) \<Longrightarrow>
   request_json remote req = Inr j"
  by (simp add: request_json_def raise_for_status_def response_json_def)

lemmas transport_eval =
  request_json_def raise_for_status_def response_json_def try_get_def

text \<open>
  Claim C5. For every conversion table and every request (purchase id, stock id, amount),
  \<open>convert_purchase_quantities_to_stock\<close> scans the table in order and returns the amount
  times the factor of the first entry whose unit ids are the requested pair, and the amount
  unchanged when no entry matches. The table is what the remote system answers to the
  table request with a status outside 400..599; each of its entries carries the three
  numeric fields. With the entry (1, 2, 2.5), the request (1, 2, 4) returns 10 and the
  request (1, 3, 4) returns 4.
\<close>

theorem convert_purchase_quantities_to_stock_first_match:
  assumes "remote GET_objects_quantity_unit_conversions = Response status (Some (JArr cs))"
    and "\<not> (400 \<le> status \<and> status < 600)"
    and "map triple_of cs = map Some table"
  shows "convert_purchase_quantities_to_stock remote purchase_id stock_id amount =
           ([Call GET_objects_quantity_unit_conversions],
            Inr (JNum (spec_convert table purchase_id stock_id amount)))"
proof -
  have "request_json remote GET_objects_quantity_unit_conversions = Inr (JArr cs)"
    using assms(1,2) by (rule request_json_ok)
  then have "get_quantity_unit_conversions remote =
          ([Call GET_objects_quantity_unit_conversions], Inr (JArr cs))"
    by (simp add: get_quantity_unit_conversions_def try_get_def)
  then show ?thesis
    by (simp add: convert_purchase_quantities_to_stock_def scan_conversions_table [OF assms(3)])
qed

theorem convert_purchase_quantities_to_stock_first_match_witness:
  "convert_purchase_quantities_to_stock
     (\<lambda>req. Response 200 (Some (JArr [JObj [(py ''id'', JNum 9), (py ''from_qu_id'', JNum 1),
                                              (py ''to_qu_id'', JNum 2), (py ''factor'', JNum (5 / 2))]])))
     1 2 (4::rat) = ([Call GET_objects_quantity_unit_conversions], Inr (JNum 10))
   \<and> convert_purchase_quantities_to_stock
     (\<lambda>req. Response 200 (Some (JArr [JObj [(py ''id'', JNum 9), (py ''from_qu_id'', JNum 1),
                                              (py ''to_qu_id'', JNum 2), (py ''factor'', JNum (5 / 2))]])))
     1 3 (4::rat) = ([Call GET_objects_quantity_unit_conversions], Inr (JNum 4))"
proof -
  let ?cs = "[JObj [(py ''id'', JNum 9), (py ''from_qu_id'', JNum 1),
                    (py ''to_qu_id'', JNum 2), (py ''factor'', JNum (5 / 2 :: rat))]]"
  let ?remote = "\<lambda>req :: rat request. Response 200 (Some (JArr ?cs))"
  have r: "?remote GET_objects_quantity_unit_conversions = Response 200 (Some (JArr ?cs))"
    by simp
  have s: "\<not> (400 \<le> (200::int) \<and> (200::int) < 600)" by simp
  have t: "map triple_of ?cs = map Some [(1, 2, 5 / 2)]"
    by (simp add: triple_of_def py_def)
  have a: "spec_convert [(1, 2, 5 / 2)] 1 2 (4::rat) = 10"
    by (simp add: spec_convert_def)
  have b: "spec_convert [(1, 2, 5 / 2)] 1 3 (4::rat) = 4"
    by (simp add: spec_convert_def)
  from convert_purchase_quantities_to_stock_first_match [of ?remote 200 ?cs "[(1, 2, 5 / 2)]" 1 2 4, OF r s t]
       convert_purchase_quantities_to_stock_first_match [of ?remote 200 ?cs "[(1, 2, 5 / 2)]" 1 3 4, OF r s t]
  show ?thesis by (simp only: a b) 
qed

text \<open>
  When the request for the conversion table fails, \<open>get_quantity_unit_conversions\<close> logs
  the failure and returns an empty table, and the loop of
  \<open>convert_purchase_quantities_to_stock\<close>, which is all that its \<^verbatim>\<open>try\<close> covers, finds no
  entry: the amount comes back unconverted.
\<close>

lemma convert_fetch_failure_unguarded:
  "request_json remote GET_objects_quantity_unit_conversions = Inl e \<Longrightarrow>
   convert_purchase_quantities_to_stock remote purchase_id stock_id amount =
     ([Call GET_objects_quantity_unit_conversions,
       LogError (py ''Error getting quantity unit conversions: '' @ error_text e)],
      Inr (JNum amount))"
  by (simp add: convert_purchase_quantities_to_stock_def get_quantity_unit_conversions_def
      try_get_def)

text \<open>
  Claim C6, at a remote system that refuses the connection and the request (1, 2, 4).
  The fetch of the conversion table fails, and \<open>convert_purchase_quantities_to_stock\<close>
  returns 4, the unconverted amount, which is not an error object.
\<close>

theorem convert_fetch_failure_returns_amount:
  "convert_purchase_quantities_to_stock (\<lambda>req. Fails (py ''connection refused'')) 1 2 (4::rat) =
     ([Call GET_objects_quantity_unit_conversions,
       LogError (py ''Error getting quantity unit conversions: connection refused'')],
      Inr (JNum 4))
   \<and> \<not> error_object (JNum (4::rat))"
  by (simp add: convert_purchase_quantities_to_stock_def get_quantity_unit_conversions_def
      transport_eval error_object_def py_def)

section \<open>Properties of the read operations\<close>

lemma try_get_failure:
  "request_json remote req = Inl e \<Longrightarrow>
   try_get remote req message sentinel = ([Call req, LogError (message @ error_text e)], Inr sentinel)"
  by (simp add: try_get_def)

lemma try_get_returns: "\<exists>v. snd (try_get remote req message sentinel) = Inr v"
  by (cases "request_json remote req") (simp_all add: try_get_def)

text \<open>
  Claim C7, as the code has it. When the request of a read operation fails (the transport
  raises, the status is in 400..599, or the body is not JSON), the operation logs one error
  and returns its sentinel: \<^verbatim>\<open>None\<close> for \<open>find_product_by_barcode\<close>, \<open>get_product\<close> and
  \<open>get_all_products\<close>; an empty list for \<open>products_for_group\<close>, \<open>get_product_categories\<close>,
  \<open>get_locations\<close>, \<open>get_quantity_units\<close>, \<open>get_shopping_locations\<close> and
  \<open>get_quantity_unit_conversions\<close>; an empty dict for \<open>external_lookup\<close>. Nothing is said of
  \<open>get_product_by_name\<close>.
\<close>

theorem read_operations_failure_sentinel:
  "(request_json remote (GET_stock_products_by_barcode barcode) = Inl e \<longrightarrow>
      snd (find_product_by_barcode remote barcode) = Inr JNull
      \<and> logged_errors (fst (find_product_by_barcode remote barcode)) =
          [py ''Error finding product by barcode: '' @ error_text e])
   \<and> (request_json remote (GET_objects_products_id product_id) = Inl e \<longrightarrow>
      get_product remote product_id =
        ([Call (GET_objects_products_id product_id),
          LogError (py ''Error getting product: '' @ error_text e)], Inr JNull))
   \<and> (request_json remote GET_objects_products = Inl e \<longrightarrow>
      get_all_products remote =
        ([Call GET_objects_products,
          LogError (py ''Error getting all products: '' @ error_text e)], Inr JNull))
   \<and> (request_json remote (GET_objects_products_of_group group_id) = Inl e \<longrightarrow>
      snd (products_for_group remote group_id) = Inr (JArr [])
      \<and> logged_errors (fst (products_for_group remote group_id)) =
          [py ''Error finding products by group: '' @ error_text e])
   \<and> (request_json remote GET_objects_product_groups = Inl e \<longrightarrow>
      get_product_categories remote =
        ([Call GET_objects_product_groups,
          LogError (py ''Error getting product categories: '' @ error_text e)], Inr (JArr [])))
   \<and> (request_json remote GET_objects_locations = Inl e \<longrightarrow>
      get_locations remote =
        ([Call GET_objects_locations,
          LogError (py ''Error getting locations: '' @ error_text e)], Inr (JArr [])))
   \<and> (request_json remote GET_objects_quantity_units = Inl e \<longrightarrow>
      get_quantity_units remote =
        ([Call GET_objects_quantity_units,
          LogError (py ''Error getting quantity units: '' @ error_text e)], Inr (JArr [])))
   \<and> (request_json remote GET_objects_shopping_locations = Inl e \<longrightarrow>
      get_shopping_locations remote =
        ([Call GET_objects_shopping_locations,
          LogError (py ''Error getting shopping locations: '' @ error_text e)], Inr (JArr [])))
   \<and> (request_json remote GET_objects_quantity_unit_conversions = Inl e \<longrightarrow>
      get_quantity_unit_conversions remote =
        ([Call GET_objects_quantity_unit_conversions,
          LogError (py ''Error getting quantity unit conversions: '' @ error_text e)], Inr (JArr [])))
   \<and> (request_json remote (GET_stock_barcodes_external_lookup barcode) = Inl e \<longrightarrow>
      external_lookup remote barcode =
        ([Call (GET_stock_barcodes_external_lookup barcode),
          LogError (py ''Error performing external barcode lookup: '' @ error_text e)],
         Inr (JObj [])))"
proof (intro conjI impI)
  assume "request_json remote (GET_stock_products_by_barcode barcode) = Inl e"
  then show "snd (find_product_by_barcode remote barcode) = Inr JNull"
    and "logged_errors (fst (find_product_by_barcode remote barcode)) =
          [py ''Error finding product by barcode: '' @ error_text e]"
    by (simp_all add: find_product_by_barcode_def logged_errors_def)
next
  assume "request_json remote (GET_objects_products_of_group group_id) = Inl e"
  then show "snd (products_for_group remote group_id) = Inr (JArr [])"
    and "logged_errors (fst (products_for_group remote group_id)) =
          [py ''Error finding products by group: '' @ error_text e]"
    by (simp_all add: products_for_group_def logged_errors_def)
qed (simp_all add: try_get_failure get_product_def get_all_products_def
      get_product_categories_def get_locations_def get_quantity_units_def
      get_shopping_locations_def get_quantity_unit_conversions_def external_lookup_def)

theorem read_operations_failure_sentinel_witness:
  "snd (find_product_by_barcode (\<lambda>req :: rat request. Fails (py ''timed out'')) (py ''012345678905'')) = Inr JNull
   \<and> get_product (\<lambda>req :: rat request. Fails (py ''timed out'')) (JNum 7) =
        ([Call (GET_objects_products_id (JNum 7)),
          LogError (py ''Error getting product: timed out'')], Inr JNull)
   \<and> get_all_products (\<lambda>req :: rat request. Fails (py ''timed out'')) =
        ([Call GET_objects_products,
          LogError (py ''Error getting all products: timed out'')], Inr JNull)
   \<and> get_locations (\<lambda>req :: rat request. Fails (py ''timed out'')) =
        ([Call GET_objects_locations,
          LogError (py ''Error getting locations: timed out'')], Inr (JArr []))
   \<and> external_lookup (\<lambda>req :: rat request. Fails (py ''timed out'')) (py ''012345678905'') =
        ([Call (GET_stock_barcodes_external_lookup (py ''012345678905'')),
          LogError (py ''Error performing external barcode lookup: timed out'')], Inr (JObj []))"
proof -
  have h: "request_json (\<lambda>req :: rat request. Fails (py ''timed out'')) req =
             Inl (ConnectionError (py ''timed out''))" for req
    by (simp add: request_json_def)
  from read_operations_failure_sentinel [of "\<lambda>req :: rat request. Fails (py ''timed out'')" "(py ''012345678905'')"
      "ConnectionError (py ''timed out'')" "JNum 7" 3]
  show ?thesis by (simp add: h) (simp add: py_def)
qed

text \<open>
  Claim C7 as stated fails: when the connection times out, \<open>get_all_products\<close>, a list
  lookup, returns \<^verbatim>\<open>None\<close> and not an empty list, and \<open>get_product_by_name\<close> iterates over
  that \<^verbatim>\<open>None\<close> and raises \<^verbatim>\<open>TypeError\<close> to its caller.
\<close>

theorem read_failure_sentinel_counterexample:
  "snd (get_all_products (\<lambda>req :: rat request. Fails (py ''timed out''))) = Inr JNull
   \<and> (JNull :: rat json) \<noteq> JArr []
   \<and> snd (get_product_by_name (\<lambda>req :: rat request. Fails (py ''timed out'')) (py ''milk'')) =
       Inl (TypeError (py ''object is not iterable''))"
  by (simp add: get_product_by_name_def get_all_products_def transport_eval)

section \<open>Properties of the write operations\<close>

lemma get_product_events:
  "Call GET_objects_products \<notin> set (fst (get_product remote product_id))"
  by (cases "request_json remote (GET_objects_products_id product_id)")
     (simp_all add: get_product_def try_get_def)

lemma get_product_returns: "\<exists>p. snd (get_product remote product_id) = Inr p"
  by (cases "request_json remote (GET_objects_products_id product_id)")
     (simp_all add: get_product_def try_get_def)

lemma add_barcode_events:
  "Call GET_objects_products \<notin> set (fst (add_barcode_to_product remote product_id barcode a))"
proof (cases "normalize_receipt_barcode barcode")
  case (Inl e)
  then show ?thesis by (simp add: add_barcode_to_product_def)
next
  case (Inr b)
  then show ?thesis
    by (simp add: add_barcode_to_product_def Let_def split: sum.split)
qed

lemma attach_barcode_events:
  "Call GET_objects_products \<in> set (fst (attach_barcode remote pd ev product)) \<longleftrightarrow>
   Call GET_objects_products \<in> set ev"
proof (cases "pd_barcode pd")
  case None
  then show ?thesis by (simp add: attach_barcode_def)
next
  case (Some barcode)
  show ?thesis
  proof (cases "truthy product")
    case False
    with Some show ?thesis by (simp add: attach_barcode_def)
  next
    case True
    show ?thesis
    proof (cases "py_getitem product (py ''id'')")
      case (Inl e)
      with Some True show ?thesis by (simp add: attach_barcode_def)
    next
      case (Inr product_id)
      obtain ev' r where ab: "add_barcode_to_product remote product_id barcode
             [(py ''note'', JStr (pd_name pd))] = (ev', r)" by (cases "add_barcode_to_product remote product_id barcode
             [(py ''note'', JStr (pd_name pd))]")
      from add_barcode_events [of remote product_id barcode "[(py ''note'', JStr (pd_name pd))]"]
      have no: "Call GET_objects_products \<notin> set ev'" by (simp add: ab)
      have "fst (attach_barcode remote pd ev product) = ev @ ev'"
        using Some True Inr ab
        by (simp add: attach_barcode_def split: sum.split)
      with no show ?thesis by simp
    qed
  qed
qed

lemma get_product_by_name_events:
  "Call GET_objects_products \<in> set (fst (get_product_by_name remote product_name))"
  by (cases "request_json remote GET_objects_products")
     (simp_all add: get_product_by_name_def get_all_products_def try_get_def split: sum.split)

lemma create_product_try_raises:
  "(\<exists>e. snd (create_product_try remote body_sent) = Inl e) \<longleftrightarrow>
   (case remote (POST_objects_products body_sent) of
      Fails msg \<Rightarrow> True
    | Response status_code body \<Rightarrow> \<not> object_body body)"
proof (cases "remote (POST_objects_products body_sent)")
  case (Fails msg)
  then show ?thesis by (simp add: create_product_try_def Let_def)
next
  case (Response status_code body)
  show ?thesis
  proof (cases body)
    case None
    with Response show ?thesis
      by (simp add: create_product_try_def Let_def response_json_def object_body_def)
  next
    case (Some j)
    show ?thesis
    proof (cases j)
      case (JObj kvs)
      obtain ev p where gp: "get_product remote (case map_of kvs (py ''created_object_id'') of
            None \<Rightarrow> JNull | Some v \<Rightarrow> v) = (ev, Inr p)"
        using get_product_returns [of remote "case map_of kvs (py ''created_object_id'') of
            None \<Rightarrow> JNull | Some v \<Rightarrow> v"]
        by (cases "get_product remote (case map_of kvs (py ''created_object_id'') of
            None \<Rightarrow> JNull | Some v \<Rightarrow> v)") auto
      from Response Some JObj gp show ?thesis
        by (simp add: create_product_try_def Let_def response_json_def object_body_def)
    qed (use Response Some in \<open>simp_all add: create_product_try_def Let_def response_json_def object_body_def\<close>)
  qed
qed

lemma create_product_try_events:
  "Call GET_objects_products \<notin> set (fst (create_product_try remote body_sent))"
proof (cases "remote (POST_objects_products body_sent)")
  case (Fails msg)
  then show ?thesis by (simp add: create_product_try_def Let_def)
next
  case (Response status_code body)
  have "Call GET_objects_products \<notin> set (fst (get_product remote pid))" for pid
    by (rule get_product_events)
  then have "Call GET_objects_products \<notin> set ev" if "get_product remote pid = (ev, r)" for pid ev r
    using that by (metis fst_conv)
  with Response show ?thesis
    by (auto simp add: create_product_try_def Let_def response_json_def split: sum.splits option.splits prod.splits)
qed

lemma create_product_400:
  assumes "remote (POST_objects_products (grocy_product pd)) = Response 400 (Some (JObj kvs))"
  shows "create_product remote pd =
           ([LogInfo (py ''Creating product with data''),
             Call (POST_objects_products (grocy_product pd)),
             LogError (py ''Error creating product'')],
            Inr (JObj [(py ''error'', dict_get kvs (py ''error'') JNull)]))"
  using assms
  by (simp add: create_product_def create_product_try_def Let_def response_json_def dict_get_def)

lemma create_product_fallback:
  "Call GET_objects_products \<in> set (fst (create_product remote pd)) \<longleftrightarrow>
   (case remote (POST_objects_products (grocy_product pd)) of
      Fails msg \<Rightarrow> True
    | Response status_code body \<Rightarrow> \<not> object_body body)"
proof -
  obtain ev r where t: "create_product_try remote (grocy_product pd) = (ev, r)"
    by (cases "create_product_try remote (grocy_product pd)")
  from create_product_try_events [of remote "grocy_product pd"]
  have no: "Call GET_objects_products \<notin> set ev" by (simp add: t)
  have "Call GET_objects_products \<in> set (fst (create_product remote pd)) \<longleftrightarrow> (\<exists>e. r = Inl e)"
  proof (cases r)
    case (Inl e)
    obtain ev' r' where n: "get_product_by_name remote (pd_name pd) = (ev', r')"
      by (cases "get_product_by_name remote (pd_name pd)")
    from get_product_by_name_events [of remote "pd_name pd"]
    have yes: "Call GET_objects_products \<in> set ev'" by (simp add: n)
    show ?thesis
    proof (cases r')
      case e': (Inl e')
      with Inl t n yes show ?thesis by (simp add: create_product_def)
    next
      case p: (Inr product)
      with Inl t n yes show ?thesis
        by (simp add: create_product_def attach_barcode_events)
    qed
  next
    case (Inr a)
    show ?thesis
    proof (cases a)
      case (Returned error_dict)
      with Inr t no show ?thesis by (simp add: create_product_def)
    next
      case (Product product)
      with Inr t no show ?thesis by (simp add: create_product_def attach_barcode_events)
    qed
  qed
  also have "\<dots> \<longleftrightarrow> (\<exists>e. snd (create_product_try remote (grocy_product pd)) = Inl e)"
    by (simp add: t)
  also note create_product_try_raises
  finally show ?thesis .
qed

text \<open>
  Claim C8, as the code has it. When the create request is answered with status 400 and a
  JSON object as body, \<open>create_product\<close> logs an error and returns the error dict carrying
  the \<^verbatim>\<open>error\<close> entry of that body (\<^verbatim>\<open>None\<close> when the body has none), having sent no other
  request. The lookup of all products, which is the fallback by name, is sent exactly when
  the create request raises or its response body is not a JSON object, whatever the status.
\<close>

theorem create_product_validation_error:
  "(remote (POST_objects_products (grocy_product pd)) = Response 400 (Some (JObj kvs)) \<longrightarrow>
      create_product remote pd =
        ([LogInfo (py ''Creating product with data''),
          Call (POST_objects_products (grocy_product pd)),
          LogError (py ''Error creating product'')],
         Inr (JObj [(py ''error'', dict_get kvs (py ''error'') JNull)])))
   \<and> (Call GET_objects_products \<in> set (fst (create_product remote pd)) \<longleftrightarrow>
        (case remote (POST_objects_products (grocy_product pd)) of
           Fails msg \<Rightarrow> True
         | Response status_code body \<Rightarrow> \<not> object_body body))"
  using create_product_400 [of remote pd kvs] create_product_fallback [of remote pd]
  by (intro conjI impI)

theorem create_product_validation_error_witness:
  "create_product (\<lambda>req :: rat request. Response 400 (Some (JObj [(py ''error'', JStr (py ''name taken''))])))
     \<lparr>pd_name = (py ''milk''), pd_description = None, pd_product_group_id = JNum 1,
      pd_location_id = JNum 2, pd_qu_id_purchase = JNum 3, pd_qu_id_stock = JNum 3,
      pd_barcode = Some (py ''1234567890''), pd_out_of_stock_default = None\<rparr> =
     ([LogInfo (py ''Creating product with data''),
       Call (POST_objects_products (JObj
         [(py ''name'', JStr (py ''milk'')), (py ''description'', JStr []),
          (py ''product_group_id'', JNum 1), (py ''location_id'', JNum 2),
          (py ''qu_id_purchase'', JNum 3), (py ''qu_id_stock'', JNum 3),
          (py ''treat_opened_as_out_of_stock'', JBool False)])),
       LogError (py ''Error creating product'')],
      Inr (JObj [(py ''error'', JStr (py ''name taken''))]))"
proof -
  let ?remote = "\<lambda>req :: rat request. Response 400 (Some (JObj [(py ''error'', JStr (py ''name taken''))]))"
  let ?pd = "\<lparr>pd_name = (py ''milk''), pd_description = None, pd_product_group_id = JNum (1::rat),
      pd_location_id = JNum 2, pd_qu_id_purchase = JNum 3, pd_qu_id_stock = JNum 3,
      pd_barcode = Some (py ''1234567890''), pd_out_of_stock_default = None\<rparr>"
  have "?remote (POST_objects_products (grocy_product ?pd)) =
          Response 400 (Some (JObj [(py ''error'', JStr (py ''name taken''))]))" by simp
  with create_product_validation_error [of ?remote ?pd "[(py ''error'', JStr (py ''name taken''))]"]
  show ?thesis by (simp add: grocy_product_def dict_get_def)
qed

text \<open>
  Claim C8 as stated fails: a response with status 400 whose body is not JSON makes
  \<^verbatim>\<open>response.json()\<close> raise inside the \<^verbatim>\<open>try\<close>, so the fallback lookup is sent and
  \<open>create_product\<close> returns the product found by name, not an error result.
\<close>

theorem create_product_400_counterexample:
  "Call GET_objects_products \<in> set (fst (create_product
      (\<lambda>req :: rat request. case req of
          POST_objects_products b \<Rightarrow> Response 400 None
        | _ \<Rightarrow> Response 200 (Some (JArr [JObj [(py ''id'', JNum 5), (py ''name'', JStr (py ''milk''))]])))
      \<lparr>pd_name = (py ''milk''), pd_description = None, pd_product_group_id = JNum 1,
       pd_location_id = JNum 2, pd_qu_id_purchase = JNum 3, pd_qu_id_stock = JNum 3,
       pd_barcode = None, pd_out_of_stock_default = None\<rparr>))
   \<and> snd (create_product
      (\<lambda>req :: rat request. case req of
          POST_objects_products b \<Rightarrow> Response 400 None
        | _ \<Rightarrow> Response 200 (Some (JArr [JObj [(py ''id'', JNum 5), (py ''name'', JStr (py ''milk''))]])))
      \<lparr>pd_name = (py ''milk''), pd_description = None, pd_product_group_id = JNum 1,
       pd_location_id = JNum 2, pd_qu_id_purchase = JNum 3, pd_qu_id_stock = JNum 3,
       pd_barcode = None, pd_out_of_stock_default = None\<rparr>) =
     Inr (JObj [(py ''id'', JNum 5), (py ''name'', JStr (py ''milk''))])"
  by (simp add: create_product_def create_product_try_def Let_def grocy_product_def
      get_product_by_name_def get_all_products_def transport_eval attach_barcode_def py_or_def
      py_def)

lemma add_purchase_submits:
  assumes d: "request_json remote (GET_stock_products_id (pu_product_id pd)) = Inr (JObj kvs)"
    and f: "map_of kvs (py ''qu_conversion_factor_purchase_to_stock'') = Some (JNum factor)"
    and nz: "factor \<noteq> 0"
    and x: "expiration_date today (pu_days_out pd) = Inr best_before"
  shows "add_purchase remote today pd =
    (let req = POST_stock_products_add (pu_product_id pd)
                 \<lparr>pb_amount = pu_amount pd * factor,
                  pb_transaction_type = (py ''purchase''),
                  pb_best_before_date = best_before,
                  pb_price = (case pu_price pd of None \<Rightarrow> 0 | Some p \<Rightarrow> p) div factor,
                  pb_shopping_location_id = pu_shopping_location_id pd\<rparr>;
         ev = [Call (GET_stock_products_id (pu_product_id pd)),
               LogInfo (py ''Adding purchase for product''), Call req]
     in case request_json remote req of
          Inr j \<Rightarrow> (ev, Inr j)
        | Inl e \<Rightarrow> (ev @ [LogError (py ''Error adding purchase: '' @ error_text e)],
                    Inr (JObj [(py ''error'', JStr (error_text e))])))"
  using d f nz x
  by (simp add: add_purchase_def get_product_details_def try_get_def Let_def split: sum.split)

text \<open>
  Claim C9, at a purchase of product 7 whose stock details the remote system answers with
  status 404. \<open>get_product_details\<close> returns \<^verbatim>\<open>None\<close>, and \<open>add_purchase\<close> subscripts it
  before its \<^verbatim>\<open>try\<close>: the call raises \<^verbatim>\<open>TypeError\<close>, sends no purchase request and returns
  no error object.
\<close>

theorem add_purchase_raises_without_details:
  "add_purchase (\<lambda>req :: rat request. Response 404 None) 738000
     \<lparr>pu_product_id = JNum 7, pu_amount = 2, pu_days_out = 10,
      pu_shopping_location_id = JNum 1, pu_price = Some 3\<rparr> =
     ([Call (GET_stock_products_id (JNum 7)),
       LogError (py ''Error getting product details: 404 Client Error''),
       LogInfo (py ''Adding purchase for product'')],
      Inl (TypeError (py ''NoneType object is not subscriptable'')))"
  by (simp add: add_purchase_def get_product_details_def transport_eval expiration_date_def
      py_str_def digits_of.simps py_def)

end
